theory Spec2Isabelle
  imports Complex_Main "HOL-Library.Char_ord" "HOL-Library.List_Lexorder" "HOL-Library.Multiset"
begin

section \<open>The GAD demo backend: data model\<close>

text \<open>
  The development embeds \<^verbatim>\<open>gad-demo/backend/app/models.py\<close> and
  \<^verbatim>\<open>gad-demo/backend/app/mock_data.py\<close>.

  Conventions of the embedding.
  \<^item> A pydantic model is a record. A field keeps its source name unless two models share
    the name (or it is a HOL constant such as \<open>id\<close>); then it carries a short prefix
    of its model (\<open>c_id\<close> for \<open>Candidate.id\<close>, \<open>pd_id\<close> for \<open>PromptDNA.id\<close>, ...).
  \<^item> A Python \<open>float\<close> is a \<open>real\<close>: rounding and the finite range of doubles are
    outside the model. A Python \<open>int\<close> is an \<open>int\<close>, a \<open>str\<close> is a \<open>string\<close>,
    \<open>Optional[t]\<close> is \<open>t option\<close>, a \<open>dict\<close> with string keys is an association
    list in insertion order.
  \<^item> The ambient state of the module (the state of Python's global random generator and
    the wall clock read by \<open>datetime.now()\<close>) is a value \<open>w\<close> of a type \<open>'w\<close> that
    every effectful function takes and returns; the library operations on it are the
    fields of an environment record, so that every theorem holds for any generator and
    any clock.
\<close>

record Metrics =
  test_pass_rate :: real
  coverage :: real
  performance_score :: real
  security_score :: real
  ux_score :: real
  style_score :: real
  license_compliance :: bool
  vulnerability_count :: int

record GateResult =
  gate_name :: string
  passed :: bool
  gate_message :: string
  threshold :: "real option"
  actual :: "real option"

record ReviewerComment =
  reviewer_id :: string
  reviewer_type :: string
  rc_timestamp :: string
  severity :: string
  category :: string
  rc_message :: string
  line_numbers :: "int list option"

record PromptDNA =
  pd_id :: string
  system_prompt :: string
  task_description :: string
  constraints :: "string list"
  examples :: "string list"
  temperature :: real
  top_p :: real
  feedback_history :: "string list"
  pd_generation :: int
  pd_parent_ids :: "string list"
  mutations :: "(string \<times> string) list list"
  trust_region_similarity :: "real option"

record Candidate =
  c_id :: string
  c_generation :: int
  c_parent_ids :: "string list"
  prompt_dna_id :: string
  prompt_dna_summary :: string
  metrics :: Metrics
  effective_score :: real
  weighted_scores :: "(string \<times> real) list"
  gates_passed :: bool
  gate_results :: "GateResult list"
  is_pareto_front :: bool
  selected_for_breeding :: bool
  survival_reason :: "string option"
  c_branch :: string
  c_commit_id :: string
  generator_agent_id :: string
  reviewer_comments :: "ReviewerComment list"

record AgentProfile =
  ag_id :: string
  ag_name :: string
  ag_type :: string
  specialization :: string
  reliability_score :: "real option"
  generations_participated :: int
  successful_candidates :: "int option"

record UCBStats =
  agent_id :: string
  mean_reward :: real
  confidence_interval :: real
  exploration_bonus :: real
  total_score :: real
  times_selected :: int

record ParetoPoint =
  candidate_id :: string
  objective1 :: real
  objective2 :: real
  label :: string

record Generation =
  number :: int
  candidates :: "Candidate list"
  pareto_front :: "ParetoPoint list"
  ucb_allocations :: "UCBStats list"
  survivors :: "string list"
  breeding_pairs :: "(string \<times> string) list"
  summary :: string




record RPGNode =
  node_id :: string
  node_type :: string
  node_name :: string
  node_description :: string
  node_status :: string

record RPGEdge =
  edge_source :: string
  edge_target :: string
  edge_type :: string

record RepositoryPlanningGraph =
  nodes :: "RPGNode list"
  edges :: "RPGEdge list"

record GADRun =
  run_id :: string
  run_name :: string
  requirement :: string
  total_generations :: int
  generations :: "Generation list"
  final_candidate_id :: "string option"
  rpg :: RepositoryPlanningGraph
  agents :: "AgentProfile list"

datatype error = ValueError string

subsection \<open>The ambient random generator and clock\<close>

text \<open>
  \<open>random\<close> is \<^verbatim>\<open>random.random()\<close>, \<open>randint a b\<close> is \<^verbatim>\<open>random.randint(a, b)\<close>,
  \<open>sample xs k\<close> is \<^verbatim>\<open>random.sample(xs, k)\<close>, \<open>seed n\<close> is \<^verbatim>\<open>random.seed(n)\<close> and
  \<open>now_isoformat\<close> is \<^verbatim>\<open>datetime.now().isoformat()\<close>. Each takes the ambient state
  and returns the state it leaves behind.
\<close>

record 'w env =
  random :: "'w \<Rightarrow> real \<times> 'w"
  randint :: "int \<Rightarrow> int \<Rightarrow> 'w \<Rightarrow> int \<times> 'w"
  sample :: "string list \<Rightarrow> nat \<Rightarrow> 'w \<Rightarrow> string list \<times> 'w"
  seed :: "int \<Rightarrow> 'w \<Rightarrow> 'w"
  now_isoformat :: "'w \<Rightarrow> string \<times> 'w"

text \<open>The documented range of \<^verbatim>\<open>random.randint\<close>: a value between its bounds.\<close>

definition randint_in_range :: "'w env \<Rightarrow> bool" where
  "randint_in_range E \<longleftrightarrow>
     (\<forall>a b w. a \<le> b \<longrightarrow> a \<le> fst (randint E a b w) \<and> fst (randint E a b w) \<le> b)"

subsection \<open>String formatting\<close>

text \<open>\<^verbatim>\<open>str(n)\<close> of a Python int, as the f-strings of the module use it.\<close>

definition digit_char :: "nat \<Rightarrow> char" where
  "digit_char d = ''0123456789'' ! d"

function str_nat :: "nat \<Rightarrow> string" where
  "str_nat n = (if n < 10 then [digit_char n] else str_nat (n div 10) @ [digit_char (n mod 10)])"
  by pat_completeness auto
termination
  by (relation "measure (\<lambda>n. n)") auto

declare str_nat.simps [simp del]

definition str_int :: "int \<Rightarrow> string" where
  "str_int i = (if i < 0 then CHR ''-'' # str_nat (nat (- i)) else str_nat (nat i))"

text \<open>
  The format specification \<^verbatim>\<open>{n:03d}\<close>: the sign first, then the digits padded with
  zeros on the left, to a total width of at least three.
\<close>

definition fmt_03d :: "int \<Rightarrow> string" where
  "fmt_03d i =
     (if i < 0
      then CHR ''-'' # replicate (2 - length (str_nat (nat (- i)))) CHR ''0'' @ str_nat (nat (- i))
      else replicate (3 - length (str_nat (nat i))) CHR ''0'' @ str_nat (nat i))"

section \<open>Gates and scoring\<close>

definition generate_gate_results :: "Metrics \<Rightarrow> bool \<times> GateResult list" where
  "generate_gate_results m =
     (let gates =
        [\<lparr>gate_name = ''Minimum Test Pass Rate'',
          passed = (test_pass_rate m \<ge> 0.8),
          gate_message = ''All critical tests must pass'',
          threshold = Some 0.8,
          actual = Some (test_pass_rate m)\<rparr>,
         \<lparr>gate_name = ''Security Threshold'',
          passed = (security_score m \<ge> 70),
          gate_message = ''Security score must meet minimum threshold'',
          threshold = Some 70.0,
          actual = Some (security_score m)\<rparr>,
         \<lparr>gate_name = ''Zero Critical Vulnerabilities'',
          passed = (vulnerability_count m = 0),
          gate_message = ''No critical vulnerabilities allowed'',
          threshold = Some 0.0,
          actual = Some (real_of_int (vulnerability_count m))\<rparr>,
         \<lparr>gate_name = ''License Compliance'',
          passed = license_compliance m,
          gate_message = ''All dependencies must have compatible licenses'',
          threshold = None,
          actual = None\<rparr>];
        all_passed = list_all passed gates
      in (all_passed, gates))"

text \<open>The \<open>weights\<close> dictionary of \<open>generate_candidate\<close>, and a lookup \<open>weights[k]\<close>.\<close>

definition weights :: "(string \<times> real) list" where
  "weights =
     [(''test_pass_rate'', 0.25),
      (''security'', 0.25),
      (''performance'', 0.15),
      (''ux'', 0.15),
      (''coverage'', 0.10),
      (''style'', 0.10)]"

definition weight :: "string \<Rightarrow> real" where
  "weight k = the (map_of weights k)"

text \<open>
  Lines 195 to 205 of \<open>generate_candidate\<close>: the weighted aggregate of the metrics,
  multiplied by 0.5 when the gates did not pass.
\<close>

definition compute_effective_score :: "Metrics \<Rightarrow> bool \<Rightarrow> real" where
  "compute_effective_score m gates_ok =
     (let effective_score =
            test_pass_rate m * weight ''test_pass_rate'' * 100 +
            security_score m * weight ''security'' +
            performance_score m * weight ''performance'' +
            ux_score m * weight ''ux'' +
            coverage m * weight ''coverage'' * 100 +
            style_score m * weight ''style''
      in if \<not> gates_ok then effective_score * 0.5 else effective_score)"

text \<open>Lines 207 to 214: the per-dimension breakdown.\<close>

definition compute_weighted_scores :: "Metrics \<Rightarrow> (string \<times> real) list" where
  "compute_weighted_scores m =
     [(''test_pass_rate'', test_pass_rate m * weight ''test_pass_rate'' * 100),
      (''security'', security_score m * weight ''security''),
      (''performance'', performance_score m * weight ''performance''),
      (''ux'', ux_score m * weight ''ux''),
      (''coverage'', coverage m * weight ''coverage'' * 100),
      (''style'', style_score m * weight ''style'')]"

section \<open>Generating one candidate\<close>

definition generate_prompt_dna ::
  "'w env \<Rightarrow> int \<Rightarrow> string \<Rightarrow> string list \<Rightarrow> 'w \<Rightarrow> PromptDNA \<times> 'w" where
  "generate_prompt_dna E generation candidate_id' parent_ids w =
     (let base_task =
            ''Implement a secure REST API endpoint for user authentication with JWT tokens'';
          (mutations, w2) =
            (if generation > 0 then
               (let (r1, w1) = random E w;
                    mutations1 =
                      (if r1 > 0.5
                       then [[(''type'', ''feedback_integration''),
                              (''change'',
                               ''Added explicit error handling requirements from reviewer feedback'')]]
                       else []);
                    (r2, w2) = random E w1;
                    mutations2 =
                      (if r2 > 0.7
                       then mutations1 @
                            [[(''type'', ''constraint_refinement''),
                              (''change'',
                               ''Tightened security constraints based on vulnerability scan'')]]
                       else mutations1)
                in (mutations2, w2))
             else ([], w));
          feedback_history =
            (if generation > 0
             then [''Gen '' @ str_int (generation - 1) @ '': Improve input validation'',
                   ''Gen '' @ str_int (generation - 1) @ '': Add rate limiting'']
             else []);
          (similarity, w3) =
            (if generation > 0
             then (let (r3, w3) = random E w2 in (Some (0.85 + r3 * 0.1), w3))
             else (None, w2))
      in (\<lparr>pd_id = ''prompt-dna-'' @ candidate_id',
           system_prompt =
             ''You are an expert backend engineer specializing in secure API development.'',
           task_description =
             base_task @
             (if generation > 0 then '' [Gen '' @ str_int generation @ '' refinement]'' else []),
           constraints =
             [''Must use bcrypt for password hashing'',
              ''JWT tokens must expire in 15 minutes'',
              ''Rate limit: 10 requests per minute per IP'',
              ''All inputs must be validated and sanitized''],
           examples =
             [''Example: POST /auth/login with email and password'',
              ''Example: Return JWT token on success, 401 on failure''],
           temperature = 0.7,
           top_p = 0.9,
           feedback_history = feedback_history,
           pd_generation = generation,
           pd_parent_ids = parent_ids,
           mutations = mutations,
           trust_region_similarity = similarity\<rparr>, w3))"

text \<open>
  The keyword arguments of \<open>Metrics(...)\<close> are evaluated in the order they are written,
  which fixes the order of the draws.
\<close>

definition generate_metrics :: "'w env \<Rightarrow> int \<Rightarrow> bool \<Rightarrow> 'w \<Rightarrow> Metrics \<times> 'w" where
  "generate_metrics E generation is_good w =
     (if is_good then
        (let (r1, w1) = random E w;
             (r2, w2) = random E w1;
             (r3, w3) = random E w2;
             (r4, w4) = random E w3;
             (r5, w5) = random E w4;
             (r6, w6) = random E w5;
             (v, w7) = randint E 0 1 w6
         in (\<lparr>test_pass_rate = 0.95 + r1 * 0.05,
              coverage = 0.85 + r2 * 0.1,
              performance_score = 85 + r3 * 10,
              security_score = 90 + r4 * 10,
              ux_score = 80 + r5 * 15,
              style_score = 90 + r6 * 10,
              license_compliance = True,
              vulnerability_count = v\<rparr>, w7))
      else
        (let (r1, w1) = random E w;
             (r2, w2) = random E w1;
             (r3, w3) = random E w2;
             (r4, w4) = random E w3;
             (r5, w5) = random E w4;
             (r6, w6) = random E w5;
             (r7, w7) = random E w6;
             (v, w8) = randint E 2 8 w7
         in (\<lparr>test_pass_rate = 0.6 + r1 * 0.2,
              coverage = 0.5 + r2 * 0.2,
              performance_score = 50 + r3 * 30,
              security_score = 40 + r4 * 40,
              ux_score = 50 + r5 * 30,
              style_score = 60 + r6 * 30,
              license_compliance = (r7 > 0.3),
              vulnerability_count = v\<rparr>, w8)))"

definition generate_reviewer_comments ::
  "'w env \<Rightarrow> Metrics \<Rightarrow> bool \<Rightarrow> 'w \<Rightarrow> ReviewerComment list \<times> 'w" where
  "generate_reviewer_comments E m gates_ok w =
     (let (comments1, w1) =
            (if \<not> gates_ok then
               (let (t, w1) = now_isoformat E w
                in ([\<lparr>reviewer_id = ''reviewer-security-001'',
                       reviewer_type = ''security'',
                       rc_timestamp = t,
                       severity = ''critical'',
                       category = ''security'',
                       rc_message = ''SQL injection vulnerability detected in login endpoint'',
                       line_numbers = Some [45, 46, 47]\<rparr>], w1))
             else ([], w));
          (comments2, w2) =
            (if performance_score m < 80 then
               (let (t, w2) = now_isoformat E w1
                in (comments1 @
                    [\<lparr>reviewer_id = ''reviewer-performance-001'',
                      reviewer_type = ''performance'',
                      rc_timestamp = t,
                      severity = ''warning'',
                      category = ''performance'',
                      rc_message = ''Database query not optimized, consider adding index'',
                      line_numbers = Some [78, 79]\<rparr>], w2))
             else (comments1, w1));
          (comments3, w3) =
            (if ux_score m > 85 then
               (let (t, w3) = now_isoformat E w2
                in (comments2 @
                    [\<lparr>reviewer_id = ''reviewer-ux-001'',
                      reviewer_type = ''ux'',
                      rc_timestamp = t,
                      severity = ''info'',
                      category = ''ux'',
                      rc_message = ''Error messages are clear and actionable - excellent UX'',
                      line_numbers = None\<rparr>], w3))
             else (comments2, w2))
      in (comments3, w3))"

definition generate_candidate ::
  "'w env \<Rightarrow> int \<Rightarrow> int \<Rightarrow> string list \<Rightarrow> bool \<Rightarrow> bool \<Rightarrow> bool \<Rightarrow> 'w \<Rightarrow> Candidate \<times> 'w" where
  "generate_candidate E gen_num candidate_num parent_ids is_good is_pareto selected w =
     (let cand_id = ''gen'' @ str_int gen_num @ ''-cand'' @ str_int candidate_num;
          (m, w1) = generate_metrics E gen_num is_good w;
          (gates_ok, gate_res) = generate_gate_results m;
          (comments, w2) = generate_reviewer_comments E m gates_ok w1;
          score = compute_effective_score m gates_ok;
          breakdown = compute_weighted_scores m;
          reason =
            (if selected then
               (if is_pareto
                then Some ''Pareto optimal (quality vs. performance trade-off)''
                else Some ''High effective score with all gates passed'')
             else None);
          (prompt_dna, w3) = generate_prompt_dna E gen_num cand_id parent_ids w2;
          (agent, w4) = randint E 1 3 w3
      in (\<lparr>c_id = cand_id,
           c_generation = gen_num,
           c_parent_ids = parent_ids,
           prompt_dna_id = pd_id prompt_dna,
           prompt_dna_summary = take 100 (task_description prompt_dna) @ ''...'',
           metrics = m,
           effective_score = score,
           weighted_scores = breakdown,
           gates_passed = gates_ok,
           gate_results = gate_res,
           is_pareto_front = is_pareto,
           selected_for_breeding = selected,
           survival_reason = reason,
           c_branch = ''gad/gen'' @ str_int gen_num @ ''/'' @ cand_id,
           c_commit_id = ''abc'' @ str_int gen_num @ fmt_03d candidate_num @ ''def'',
           generator_agent_id = ''generator-'' @ fmt_03d agent,
           reviewer_comments = comments\<rparr>, w4))"

section \<open>Generating one generation\<close>

text \<open>
  The body of the loop \<^verbatim>\<open>for i in range(num_candidates)\<close> of
  \<open>generate_generation\<close>: the candidate of round \<open>i\<close>.
\<close>

definition loop_candidate ::
  "'w env \<Rightarrow> int \<Rightarrow> string list \<Rightarrow> nat \<Rightarrow> 'w \<Rightarrow> Candidate \<times> 'w" where
  "loop_candidate E gen_num parent_candidates i w =
     (let (r, w1) = random E w;
          is_good = (r < 0.3 + real_of_int gen_num * 0.15);
          (parents, w2) =
            (if gen_num = 0 then ([], w1)
             else sample E parent_candidates (min 2 (length parent_candidates)) w1)
      in generate_candidate E gen_num (int i) parents is_good False False w2)"

text \<open>The loop itself, over the indices still to visit, with the list built so far.\<close>

fun candidates_loop ::
  "'w env \<Rightarrow> int \<Rightarrow> string list \<Rightarrow> nat list \<Rightarrow> Candidate list \<Rightarrow> 'w \<Rightarrow> Candidate list \<times> 'w" where
  "candidates_loop E gen_num parent_candidates [] cands w = (cands, w)"
| "candidates_loop E gen_num parent_candidates (i # rest) cands w =
     (let (c, w1) = loop_candidate E gen_num parent_candidates i w
      in candidates_loop E gen_num parent_candidates rest (cands @ [c]) w1)"

declare candidates_loop.simps [simp del]

text \<open>
  \<^verbatim>\<open>xs.sort(key=key, reverse=True)\<close>: Python's sort is stable, also with
  \<open>reverse=True\<close>, so the result is the one arrangement of \<open>xs\<close> in descending key
  order in which elements with equal keys keep their relative order. The stable
  insertion sort of the library on the negated key computes it.
\<close>

definition sort_reverse :: "('a \<Rightarrow> real) \<Rightarrow> 'a list \<Rightarrow> 'a list" where
  "sort_reverse key xs = sort_key (\<lambda>x. - key x) xs"

text \<open>
  The candidates of a generation are objects shared between the list \<open>candidates\<close>,
  the list \<open>passing_candidates\<close> and the list \<open>survivors\<close>. The model keeps the
  objects in the list \<open>candidates\<close> and represents a reference to one of them by its
  position in that list, so that an assignment to a field of a survivor is an update of
  the list at that position.
\<close>

definition passing_candidates :: "Candidate list \<Rightarrow> nat list" where
  "passing_candidates cands =
     sort_reverse (\<lambda>i. effective_score (cands ! i))
       (filter (\<lambda>i. gates_passed (cands ! i)) [0..<length cands])"

definition select_survivors :: "Candidate list \<Rightarrow> nat list" where
  "select_survivors cands =
     (if length (passing_candidates cands) \<ge> 2 then take 3 (passing_candidates cands) else [])"

text \<open>The loop \<^verbatim>\<open>for survivor in survivors\<close>.\<close>

fun mark_survivors :: "'w env \<Rightarrow> nat list \<Rightarrow> Candidate list \<Rightarrow> 'w \<Rightarrow> Candidate list \<times> 'w" where
  "mark_survivors E [] cands w = (cands, w)"
| "mark_survivors E (s # rest) cands w =
     (let (r, w1) = random E w;
          pareto = (r > 0.5);
          cands1 = cands[s := (cands ! s)
                     \<lparr>selected_for_breeding := True,
                      is_pareto_front := pareto,
                      survival_reason :=
                        Some (if pareto then ''Pareto optimal'' else ''High effective score'')\<rparr>]
      in mark_survivors E rest cands1 w1)"

declare mark_survivors.simps [simp del]

text \<open>Lines 282 to 290: one point per candidate.\<close>

definition pareto_points :: "Candidate list \<Rightarrow> ParetoPoint list" where
  "pareto_points cands =
     map (\<lambda>cand. \<lparr>candidate_id = c_id cand,
                  objective1 = security_score (metrics cand),
                  objective2 = performance_score (metrics cand),
                  label = c_id cand\<rparr>) cands"

text \<open>Lines 292 to 318: the allocation snapshot.\<close>

definition generate_ucb_allocations :: "'w env \<Rightarrow> int \<Rightarrow> 'w \<Rightarrow> UCBStats list \<times> 'w" where
  "generate_ucb_allocations E gen_num w =
     (let (r1, w1) = random E w;
          (r2, w2) = random E w1;
          (r3, w3) = random E w2
      in ([\<lparr>agent_id = ''generator-001'',
            mean_reward = 0.75 + r1 * 0.2,
            confidence_interval = 0.05,
            exploration_bonus = 0.08,
            total_score = 0.88,
            times_selected = gen_num * 3 + 5\<rparr>,
           \<lparr>agent_id = ''generator-002'',
            mean_reward = 0.70 + r2 * 0.15,
            confidence_interval = 0.08,
            exploration_bonus = 0.12,
            total_score = 0.85,
            times_selected = gen_num * 2 + 4\<rparr>,
           \<lparr>agent_id = ''generator-003'',
            mean_reward = 0.65 + r3 * 0.15,
            confidence_interval = 0.10,
            exploration_bonus = 0.15,
            total_score = 0.82,
            times_selected = gen_num * 2 + 2\<rparr>], w3))"

text \<open>Lines 320 to 325, on the ids of the survivors in rank order.\<close>

definition make_breeding_pairs :: "string list \<Rightarrow> (string \<times> string) list" where
  "make_breeding_pairs ids =
     (if length ids \<ge> 2
      then [(ids ! 0, ids ! 1)] @ (if length ids \<ge> 3 then [(ids ! 0, ids ! 2)] else [])
      else [])"

definition generate_generation ::
  "'w env \<Rightarrow> int \<Rightarrow> string list \<Rightarrow> 'w \<Rightarrow> Generation \<times> 'w" where
  "generate_generation E gen_num parent_candidates w =
     (let (num_candidates, w1) = (if gen_num = 0 then (8, w) else randint E 6 8 w);
          (cands0, w2) =
            candidates_loop E gen_num parent_candidates [0..<nat num_candidates] [] w1;
          survs = select_survivors cands0;
          (cands, w3) = mark_survivors E survs cands0 w2;
          points = pareto_points cands;
          (ucb, w4) = generate_ucb_allocations E gen_num w3;
          survivor_ids = map (\<lambda>s. c_id (cands ! s)) survs;
          pairs = make_breeding_pairs survivor_ids;
          text = ''Generation '' @ str_int gen_num @ '': '' @ str_int (int (length cands)) @
                 '' candidates, '' @ str_int (int (length survs)) @ '' survivors''
      in (\<lparr>number = gen_num,
           candidates = cands,
           pareto_front = points,
           ucb_allocations = ucb,
           survivors = survivor_ids,
           breeding_pairs = pairs,
           summary = text\<rparr>, w4))"

section \<open>Agents, planning graph and DNA bundles\<close>






section \<open>The sample run\<close>




text \<open>
  The accessors read the module-level \<open>SAMPLE_RUN\<close>; here it is the argument \<open>run\<close>.
  A \<open>raise ValueError(...)\<close> is the result \<open>Inl (ValueError ...)\<close>.
\<close>

definition get_sample_run :: "GADRun \<Rightarrow> GADRun" where
  "get_sample_run run = run"

definition get_generation :: "GADRun \<Rightarrow> int \<Rightarrow> error + Generation" where
  "get_generation run gen_num =
     (if 0 \<le> gen_num \<and> gen_num < int (length (generations run))
      then Inr (generations run ! nat gen_num)
      else Inl (ValueError (''Generation '' @ str_int gen_num @ '' not found'')))"

text \<open>
  The nested loops over generations and their candidates return at the first candidate
  with the id asked for.
\<close>

definition find_candidate :: "GADRun \<Rightarrow> string \<Rightarrow> Candidate option" where
  "find_candidate run cid =
     find (\<lambda>cand. c_id cand = cid) (concat (map candidates (generations run)))"


definition get_prompt_dna :: "'w env \<Rightarrow> GADRun \<Rightarrow> string \<Rightarrow> 'w \<Rightarrow> (error + PromptDNA) \<times> 'w" where
  "get_prompt_dna E run cid w =
     (case find_candidate run cid of
        Some cand \<Rightarrow>
          (let (p, w1) =
                 generate_prompt_dna E (c_generation cand) (c_id cand) (c_parent_ids cand) w
           in (Inr p, w1))
      | None \<Rightarrow> (Inl (ValueError (''Candidate '' @ cid @ '' not found'')), w))"

section \<open>A scripted environment\<close>

text \<open>
  An environment to run the definitions on: its state is a list of numbers still to be
  drawn and a clock reading. \<open>random\<close> returns the next number of the list, and the
  default \<open>d\<close> once the list is used up; \<open>randint a b\<close> returns \<open>a\<close> plus the
  next number rounded down, kept between \<open>a\<close> and \<open>b\<close>, and \<open>a\<close> once the list is
  used up; \<open>sample xs k\<close> takes the first \<open>k\<close> elements; \<open>seed n\<close> starts the given
  script again; and the clock stands still.
\<close>

definition script_random :: "real \<Rightarrow> real list \<times> string \<Rightarrow> real \<times> (real list \<times> string)" where
  "script_random d w = (case fst w of [] \<Rightarrow> (d, w) | x # xs \<Rightarrow> (x, (xs, snd w)))"

definition script_randint ::
  "int \<Rightarrow> int \<Rightarrow> real list \<times> string \<Rightarrow> int \<times> (real list \<times> string)" where
  "script_randint a b w =
     (case fst w of [] \<Rightarrow> (a, w) | x # xs \<Rightarrow> (max a (min b (a + \<lfloor>x\<rfloor>)), (xs, snd w)))"

definition script_env :: "real \<Rightarrow> real list \<Rightarrow> (real list \<times> string) env" where
  "script_env d script =
     \<lparr>random = script_random d,
      randint = script_randint,
      sample = (\<lambda>xs k w. (take k xs, w)),
      seed = (\<lambda>n w. (script, snd w)),
      now_isoformat = (\<lambda>w. (snd w, w))\<rparr>"

section \<open>Values and notions used in the statements\<close>

text \<open>
  A candidate that passes every gate and one that fails the first, for the witnesses below.
\<close>

definition metrics_good :: Metrics where
  "metrics_good =
     \<lparr>test_pass_rate = 0.95, coverage = 0.9, performance_score = 85, security_score = 90,
      ux_score = 80, style_score = 90, license_compliance = True, vulnerability_count = 0\<rparr>"

definition metrics_bad :: Metrics where
  "metrics_bad =
     \<lparr>test_pass_rate = 0.5, coverage = 0.5, performance_score = 50, security_score = 40,
      ux_score = 50, style_score = 60, license_compliance = False, vulnerability_count = 3\<rparr>"


text \<open>
  Dominance on the default axes, as the specification words it: \<open>a\<close> dominates \<open>b\<close> when
  it is at least as good on both of \<open>security_score\<close> and \<open>performance_score\<close> and
  strictly better on at least one.
\<close>

definition dominates :: "Candidate \<Rightarrow> Candidate \<Rightarrow> bool" where
  "dominates a b \<longleftrightarrow>
     security_score (metrics a) \<ge> security_score (metrics b) \<and>
     performance_score (metrics a) \<ge> performance_score (metrics b) \<and>
     (security_score (metrics a) > security_score (metrics b) \<or>
      performance_score (metrics a) > performance_score (metrics b))"

text \<open>
  The ranking of the specification: descending by \<open>effective_score\<close>, ties broken by
  ascending \<open>id\<close>. Strings compare as in Python, lexicographically by character code.
\<close>

definition ranks_before :: "Candidate \<Rightarrow> Candidate \<Rightarrow> bool" where
  "ranks_before a b \<longleftrightarrow>
     effective_score a > effective_score b \<or>
     (effective_score a = effective_score b \<and> c_id a < c_id b)"

text \<open>
  A candidate with the three fields cleared that the loop over the survivors assigns: two
  candidates agree on every other field exactly when they are equal after clearing.
\<close>

definition selection_erased :: "Candidate \<Rightarrow> Candidate" where
  "selection_erased c =
     c\<lparr>selected_for_breeding := False, is_pareto_front := False, survival_reason := None\<rparr>"

text \<open>
  The list \<open>candidates\<close> of \<open>generate_generation\<close> as its first loop leaves it, before
  the survivors are chosen, and the ambient state at that point.
\<close>

definition generated_candidates ::
  "'w env \<Rightarrow> int \<Rightarrow> string list \<Rightarrow> 'w \<Rightarrow> Candidate list \<times> 'w" where
  "generated_candidates E gen_num parent_candidates w =
     (let (num_candidates, w1) = (if gen_num = 0 then (8, w) else randint E 6 8 w)
      in candidates_loop E gen_num parent_candidates [0..<nat num_candidates] [] w1)"

text \<open>
  Inputs for the witnesses and counterexamples: a generation 0 whose first candidate is
  drawn bad and the seven others good; the sample run under a generator that always
  draws 0.5, at a given clock reading.
\<close>

definition demo_generation :: Generation where
  "demo_generation = fst (generate_generation (script_env 0 []) 0 [] ([0.9], ''t''))"



text \<open>
  An ambient state that no library call changes, as the state of the scripted environment
  with its list used up.
\<close>

definition steady :: "'w env \<Rightarrow> 'w \<Rightarrow> bool" where
  "steady E w \<longleftrightarrow>
     snd (random E w) = w \<and> (\<forall>a b. snd (randint E a b w) = w) \<and>
     (\<forall>xs k. snd (sample E xs k w) = w) \<and> snd (now_isoformat E w) = w"

text \<open>What the loop over the survivors leaves in a survivor.\<close>

definition marked :: "Candidate \<Rightarrow> bool" where
  "marked c \<longleftrightarrow>
     selected_for_breeding c \<and>
     survival_reason c =
       Some (if is_pareto_front c then ''Pareto optimal'' else ''High effective score'')"

text \<open>The candidates of \<open>demo_generation\<close> before its survivors are chosen.\<close>

definition demo_before :: "Candidate list" where
  "demo_before = fst (generated_candidates (script_env 0 []) 0 [] ([0.9], ''t''))"




section \<open>Structure of the generated data\<close>

lemmas script_simps = script_env_def script_random_def script_randint_def

lemma randint_in_range_script: "randint_in_range (script_env d script)"
  by (auto simp: randint_in_range_def script_simps split: list.splits)

lemma generate_candidate_fields:
  fixes E :: "'w env"
  shows "c_id (fst (generate_candidate E g n ps good par sel w)) =
           ''gen'' @ str_int g @ ''-cand'' @ str_int n"
    and "c_generation (fst (generate_candidate E g n ps good par sel w)) = g"
    and "c_parent_ids (fst (generate_candidate E g n ps good par sel w)) = ps"
    and "is_pareto_front (fst (generate_candidate E g n ps good par sel w)) = par"
    and "selected_for_breeding (fst (generate_candidate E g n ps good par sel w)) = sel"
    and "survival_reason (fst (generate_candidate E g n ps good par False w)) = None"
  by (simp_all add: generate_candidate_def Let_def split_def)

lemma loop_candidate_id:
  "c_id (fst (loop_candidate E g ps i w)) = ''gen'' @ str_int g @ ''-cand'' @ str_int (int i)"
  by (simp add: loop_candidate_def Let_def split_def generate_candidate_fields(1))

lemma candidates_loop_length:
  "length (fst (candidates_loop E g ps idxs acc w)) = length acc + length idxs"
  by (induction idxs arbitrary: acc w) (simp_all add: candidates_loop.simps split_def Let_def)

lemma candidates_loop_ids:
  "map c_id (fst (candidates_loop E g ps idxs acc w)) =
     map c_id acc @ map (\<lambda>i. ''gen'' @ str_int g @ ''-cand'' @ str_int (int i)) idxs"
  by (induction idxs arbitrary: acc w)
     (simp_all add: candidates_loop.simps split_def Let_def loop_candidate_id)

lemma mark_survivors_length:
  "length (fst (mark_survivors E ss cs w)) = length cs"
  by (induction ss arbitrary: cs w) (simp_all add: mark_survivors.simps Let_def split_def)

lemma mark_survivors_erased:
  "map selection_erased (fst (mark_survivors E ss cs w)) = map selection_erased cs"
proof (induction ss arbitrary: cs w)
  case Nil
  then show ?case by (simp add: mark_survivors.simps)
next
  case (Cons s ss)
  have upd: "map selection_erased (cs[s := (cs ! s)\<lparr>selected_for_breeding := a,
      is_pareto_front := b, survival_reason := r\<rparr>]) = map selection_erased cs" for a b r
  proof (cases "s < length cs")
    case True
    have "(map selection_erased cs)[s := selection_erased (cs ! s)] = map selection_erased cs"
      using True by (metis list_update_id nth_map)
    then show ?thesis by (simp add: map_update selection_erased_def)
  next
    case False
    then show ?thesis by (simp add: list_update_beyond)
  qed
  show ?case
    by (simp add: mark_survivors.simps Let_def split_def Cons.IH upd)
qed

lemma selection_erased_fields:
  "c_id (selection_erased c) = c_id c"
  "gates_passed (selection_erased c) = gates_passed c"
  "effective_score (selection_erased c) = effective_score c"
  "metrics (selection_erased c) = metrics c"
  "reviewer_comments (selection_erased c) = reviewer_comments c"
  "c_generation (selection_erased c) = c_generation c"
  by (simp_all add: selection_erased_def)

lemma erased_eq_fields:
  assumes "map selection_erased xs = map selection_erased ys"
  shows "map c_id xs = map c_id ys"
    and "map gates_passed xs = map gates_passed ys"
    and "map effective_score xs = map effective_score ys"
    and "map metrics xs = map metrics ys"
    and "length xs = length ys"
    and "map reviewer_comments xs = map reviewer_comments ys"
    and "map c_generation xs = map c_generation ys"
proof -
  have comp: "map f xs = map f ys" if "\<And>c. f (selection_erased c) = f c" for f :: "Candidate \<Rightarrow> 'b"
  proof -
    have "map f xs = map f (map selection_erased xs)"
      by (simp add: that)
    also have "\<dots> = map f (map selection_erased ys)"
      by (simp only: assms)
    also have "\<dots> = map f ys"
      by (simp add: that)
    finally show ?thesis .
  qed
  show "map c_id xs = map c_id ys" "map gates_passed xs = map gates_passed ys"
    "map effective_score xs = map effective_score ys" "map metrics xs = map metrics ys"
    by (rule comp, simp add: selection_erased_fields)+
  show "length xs = length ys"
    using assms by (rule map_eq_imp_length_eq)
  show "map reviewer_comments xs = map reviewer_comments ys"
    by (rule comp, simp add: selection_erased_fields)
  show "map c_generation xs = map c_generation ys"
    by (rule comp, simp add: selection_erased_fields)
qed

text \<open>The fields of a generation in terms of the steps of \<open>generate_generation\<close>.\<close>

lemma generate_generation_fields:
  fixes E :: "'w env"
  defines "gen \<equiv> \<lambda>g ps w. fst (generate_generation E g ps w)"
    and "cands0 \<equiv> \<lambda>g ps w. fst (generated_candidates E g ps w)"
    and "w2 \<equiv> \<lambda>g ps w. snd (generated_candidates E g ps w)"
  shows "number (gen g ps w) = g"
    and "candidates (gen g ps w) =
           fst (mark_survivors E (select_survivors (cands0 g ps w)) (cands0 g ps w) (w2 g ps w))"
    and "pareto_front (gen g ps w) = pareto_points (candidates (gen g ps w))"
    and "survivors (gen g ps w) =
           map (\<lambda>s. c_id (candidates (gen g ps w) ! s)) (select_survivors (cands0 g ps w))"
    and "breeding_pairs (gen g ps w) = make_breeding_pairs (survivors (gen g ps w))"
    and "ucb_allocations (gen g ps w) =
           fst (generate_ucb_allocations E g
             (snd (mark_survivors E (select_survivors (cands0 g ps w)) (cands0 g ps w)
                (w2 g ps w))))"
  by (simp_all add: gen_def cands0_def w2_def generate_generation_def generated_candidates_def
      Let_def split_def)

lemma upt_0_8: "[0..<8] = [0, 1, 2, 3, 4, 5, 6, 7::nat]"
  by (simp add: upt_rec)

lemma candidates_loop_acc:
  "fst (candidates_loop E g ps idxs acc w) = acc @ fst (candidates_loop E g ps idxs [] w)"
proof (induction idxs arbitrary: acc w)
  case Nil
  then show ?case by (simp add: candidates_loop.simps)
next
  case (Cons i idxs)
  show ?case
    using Cons.IH [of "acc @ [fst (loop_candidate E g ps i w)]"]
          Cons.IH [of "[fst (loop_candidate E g ps i w)]"]
    by (simp add: candidates_loop.simps split_def Let_def)
qed

lemma candidates_loop_Cons:
  "fst (candidates_loop E g ps (i # idxs) [] w) =
     fst (loop_candidate E g ps i w) #
     fst (candidates_loop E g ps idxs [] (snd (loop_candidate E g ps i w)))"
  using candidates_loop_acc [of E g ps idxs "[fst (loop_candidate E g ps i w)]"]
  by (simp add: candidates_loop.simps split_def Let_def)

text \<open>Under a steady state every step leaves the state as it is.\<close>

lemma steady_script: "steady (script_env d script) ([], t)"
  by (simp add: steady_def script_simps)

lemma steady_prompt_dna:
  "steady E w \<Longrightarrow> snd (generate_prompt_dna E g c ps w) = w"
  by (simp add: steady_def generate_prompt_dna_def Let_def split_def)

lemma steady_metrics:
  "steady E w \<Longrightarrow> snd (generate_metrics E g good w) = w"
  by (simp add: steady_def generate_metrics_def Let_def split_def)

lemma steady_reviewer_comments:
  "steady E w \<Longrightarrow> snd (generate_reviewer_comments E m ok w) = w"
  by (simp add: steady_def generate_reviewer_comments_def Let_def split_def)

lemma steady_candidate:
  "steady E w \<Longrightarrow> snd (generate_candidate E g n ps good par sel w) = w"
  by (simp add: generate_candidate_def Let_def split_def steady_metrics
      steady_reviewer_comments steady_prompt_dna) (simp add: steady_def)

lemma steady_loop_candidate:
  "steady E w \<Longrightarrow> snd (loop_candidate E g ps i w) = w"
  by (simp add: loop_candidate_def Let_def split_def steady_candidate steady_def)

lemma steady_candidates_loop:
  assumes "steady E w"
  shows "candidates_loop E g ps idxs acc w =
           (acc @ map (\<lambda>i. fst (loop_candidate E g ps i w)) idxs, w)"
  using assms
  by (induction idxs arbitrary: acc)
     (simp_all add: candidates_loop.simps Let_def split_def steady_loop_candidate)



lemma steady_generated_candidates:
  "steady E w \<Longrightarrow> snd (generated_candidates E g ps w) = w"
  by (simp add: generated_candidates_def Let_def split_def steady_candidates_loop steady_def)


section \<open>Properties of gates and scoring\<close>

lemma weight_simps:
  "weight ''test_pass_rate'' = 0.25" "weight ''security'' = 0.25"
  "weight ''performance'' = 0.15" "weight ''ux'' = 0.15"
  "weight ''coverage'' = 0.10" "weight ''style'' = 0.10"
  by (simp_all add: weight_def weights_def)

lemma generate_candidate_scoring:
  fixes E :: "'w env"
  defines "c \<equiv> \<lambda>g n ps good par sel w. fst (generate_candidate E g n ps good par sel w)"
  shows "gates_passed (c g n ps good par sel w) =
           fst (generate_gate_results (metrics (c g n ps good par sel w)))"
    and "gate_results (c g n ps good par sel w) =
           snd (generate_gate_results (metrics (c g n ps good par sel w)))"
    and "effective_score (c g n ps good par sel w) =
           compute_effective_score (metrics (c g n ps good par sel w))
             (gates_passed (c g n ps good par sel w))"
    and "weighted_scores (c g n ps good par sel w) =
           compute_weighted_scores (metrics (c g n ps good par sel w))"
  by (simp_all add: c_def generate_candidate_def Let_def split: prod.splits)

lemma metrics_script_good:
  "metrics (fst (generate_candidate (script_env 0 []) 0 0 [] True False False ([], ''t''))) =
     metrics_good\<lparr>coverage := 0.85\<rparr>"
  by (simp add: generate_candidate_def generate_metrics_def script_simps
      generate_reviewer_comments_def generate_prompt_dna_def Let_def metrics_good_def
      split: prod.splits)

lemma metrics_script_bad:
  "metrics (fst (generate_candidate (script_env 0 []) 0 0 [] False False False ([], ''t''))) =
     \<lparr>test_pass_rate = 0.6, coverage = 0.5, performance_score = 50, security_score = 40,
      ux_score = 50, style_score = 60, license_compliance = False, vulnerability_count = 2\<rparr>"
  by (simp add: generate_candidate_def generate_metrics_def script_simps
      generate_reviewer_comments_def generate_prompt_dna_def Let_def split: prod.splits)

text \<open>
  C1. For every \<open>Metrics\<close> value \<open>generate_gate_results\<close> returns exactly four gate
  results, in the order Minimum Test Pass Rate, Security Threshold, Zero Critical
  Vulnerabilities, License Compliance; each passes exactly when its condition holds
  (\<open>test_pass_rate \<ge> 0.8\<close>, \<open>security_score \<ge> 70\<close>, \<open>vulnerability_count = 0\<close>,
  \<open>license_compliance\<close>); all four are present whatever fails; the returned boolean is
  the conjunction of the four flags; and when \<open>test_pass_rate < 0.8\<close> the first gate
  fails and the boolean is false whatever the other fields are.
\<close>

theorem gate_results_four_in_order:
  "length (snd (generate_gate_results m)) = 4 \<and>
   map gate_name (snd (generate_gate_results m)) =
     [''Minimum Test Pass Rate'', ''Security Threshold'',
      ''Zero Critical Vulnerabilities'', ''License Compliance''] \<and>
   map passed (snd (generate_gate_results m)) =
     [test_pass_rate m \<ge> 0.8, security_score m \<ge> 70,
      vulnerability_count m = 0, license_compliance m] \<and>
   fst (generate_gate_results m) =
     (passed (snd (generate_gate_results m) ! 0) \<and> passed (snd (generate_gate_results m) ! 1) \<and>
      passed (snd (generate_gate_results m) ! 2) \<and> passed (snd (generate_gate_results m) ! 3)) \<and>
   (test_pass_rate m < 0.8 \<longrightarrow>
      \<not> passed (snd (generate_gate_results m) ! 0) \<and> \<not> fst (generate_gate_results m))"
  by (simp add: generate_gate_results_def Let_def)

theorem gate_results_four_in_order_witness:
  "test_pass_rate metrics_bad < 0.8 \<and>
   \<not> passed (snd (generate_gate_results metrics_bad) ! 0) \<and>
   \<not> fst (generate_gate_results metrics_bad) \<and>
   length (snd (generate_gate_results metrics_bad)) = 4"
  using gate_results_four_in_order [of metrics_bad] by (simp add: metrics_bad_def)

text \<open>
  C2. With the gates passed, the effective score is the weighted sum
  \<open>0.25 * (test_pass_rate * 100) + 0.25 * security_score + 0.15 * performance_score +
  0.15 * ux_score + 0.10 * (coverage * 100) + 0.10 * style_score\<close>, and the breakdown
  \<open>weighted_scores\<close> holds exactly these six terms; both for the scoring lines on any
  \<open>Metrics\<close> value and for every candidate that \<open>generate_candidate\<close> returns.
\<close>

theorem effective_score_weighted_sum:
  fixes E :: "'w env" and g n ps good par sel w
  defines "c \<equiv> fst (generate_candidate E g n ps good par sel w)"
  shows
  "compute_effective_score m True =
     0.25 * (test_pass_rate m * 100) + 0.25 * security_score m + 0.15 * performance_score m +
     0.15 * ux_score m + 0.10 * (coverage m * 100) + 0.10 * style_score m \<and>
   compute_weighted_scores m =
     [(''test_pass_rate'', 0.25 * (test_pass_rate m * 100)),
      (''security'', 0.25 * security_score m),
      (''performance'', 0.15 * performance_score m),
      (''ux'', 0.15 * ux_score m),
      (''coverage'', 0.10 * (coverage m * 100)),
      (''style'', 0.10 * style_score m)] \<and>
   (gates_passed c \<longrightarrow>
      effective_score c =
        0.25 * (test_pass_rate (metrics c) * 100) + 0.25 * security_score (metrics c) +
        0.15 * performance_score (metrics c) + 0.15 * ux_score (metrics c) +
        0.10 * (coverage (metrics c) * 100) + 0.10 * style_score (metrics c)) \<and>
   weighted_scores c =
     [(''test_pass_rate'', 0.25 * (test_pass_rate (metrics c) * 100)),
      (''security'', 0.25 * security_score (metrics c)),
      (''performance'', 0.15 * performance_score (metrics c)),
      (''ux'', 0.15 * ux_score (metrics c)),
      (''coverage'', 0.10 * (coverage (metrics c) * 100)),
      (''style'', 0.10 * style_score (metrics c))]"
proof -
  have score: "compute_effective_score m' True =
     0.25 * (test_pass_rate m' * 100) + 0.25 * security_score m' + 0.15 * performance_score m' +
     0.15 * ux_score m' + 0.10 * (coverage m' * 100) + 0.10 * style_score m'" for m'
    by (simp add: compute_effective_score_def weight_simps)
  have breakdown: "compute_weighted_scores m' =
     [(''test_pass_rate'', 0.25 * (test_pass_rate m' * 100)),
      (''security'', 0.25 * security_score m'),
      (''performance'', 0.15 * performance_score m'),
      (''ux'', 0.15 * ux_score m'),
      (''coverage'', 0.10 * (coverage m' * 100)),
      (''style'', 0.10 * style_score m')]" for m'
    by (simp add: compute_weighted_scores_def weight_simps)
  have "effective_score c = compute_effective_score (metrics c) True" if "gates_passed c"
    using that generate_candidate_scoring(3) [of E g n ps good par sel w] by (simp add: c_def)
  moreover have "weighted_scores c = compute_weighted_scores (metrics c)"
    using generate_candidate_scoring(4) [of E g n ps good par sel w] by (simp add: c_def)
  ultimately show ?thesis
    using score breakdown by simp
qed

theorem effective_score_weighted_sum_witness:
  "gates_passed (fst (generate_candidate (script_env 0 []) 0 0 [] True False False ([], ''t''))) \<and>
   effective_score (fst (generate_candidate (script_env 0 []) 0 0 [] True False False ([], ''t'')))
     = 88.5"
  using effective_score_weighted_sum [where E = "script_env 0 []" and g = 0 and n = 0
      and ps = "[]" and good = True and par = False and sel = False and w = "([], ''t'')"
      and m = metrics_good]
    generate_candidate_scoring(1) [of "script_env 0 []" 0 0 "[]" True False False "([], ''t'')"]
  by (simp add: metrics_script_good metrics_good_def generate_gate_results_def)

text \<open>
  C3. For every \<open>Metrics\<close> value the score computed with the gates failed is exactly
  half of the score computed from the same metrics with the gates passed: the penalty is
  the multiplier 0.5 on the same aggregate, so it makes the score zero only when the
  aggregate is zero already. A candidate that fails its gates carries half of the
  aggregate of its metrics.
\<close>

theorem gate_failure_halves_score:
  fixes E :: "'w env" and g n ps good par sel w
  defines "c \<equiv> fst (generate_candidate E g n ps good par sel w)"
  shows
  "compute_effective_score m False = compute_effective_score m True / 2 \<and>
   compute_effective_score m False = 0.5 * compute_effective_score m True \<and>
   (compute_effective_score m False = 0 \<longleftrightarrow> compute_effective_score m True = 0) \<and>
   (\<not> gates_passed c \<longrightarrow>
      effective_score c = compute_effective_score (metrics c) True / 2)"
proof -
  have half: "compute_effective_score m' False = compute_effective_score m' True / 2" for m'
    by (simp add: compute_effective_score_def Let_def)
  have "effective_score c = compute_effective_score (metrics c) False" if "\<not> gates_passed c"
    using that generate_candidate_scoring(3) [of E g n ps good par sel w] by (simp add: c_def)
  then have cand: "\<not> gates_passed c \<longrightarrow>
      effective_score c = compute_effective_score (metrics c) True / 2"
    using half [of "metrics c"] by simp
  have zero: "compute_effective_score m False = 0 \<longleftrightarrow> compute_effective_score m True = 0"
    using half [of m] by linarith
  have mult: "compute_effective_score m False = 0.5 * compute_effective_score m True"
    using half [of m] by simp
  show ?thesis
    using half [of m] mult zero cand by blast
qed

theorem gate_failure_halves_score_witness:
  "\<not> gates_passed
       (fst (generate_candidate (script_env 0 []) 0 0 [] False False False ([], ''t''))) \<and>
   effective_score (fst (generate_candidate (script_env 0 []) 0 0 [] False False False ([], ''t'')))
     = 25.5"
  using gate_failure_halves_score [where E = "script_env 0 []" and g = 0 and n = 0
      and ps = "[]" and good = False and par = False and sel = False and w = "([], ''t'')"
      and m = metrics_good]
    generate_candidate_scoring(1) [of "script_env 0 []" 0 0 "[]" False False False "([], ''t'')"]
  by (simp add: metrics_script_bad generate_gate_results_def compute_effective_score_def
      weight_simps)

section \<open>Runs under the scripted environment\<close>

lemmas candidate_eval = loop_candidate_def generate_candidate_def generate_metrics_def
  generate_reviewer_comments_def generate_prompt_dna_def generate_gate_results_def
  script_simps Let_def

lemma demo_first:
  "metrics (fst (loop_candidate (script_env 0 []) 0 [] 0 ([0.9], ''t''))) =
     \<lparr>test_pass_rate = 0.6, coverage = 0.5, performance_score = 50, security_score = 40,
      ux_score = 50, style_score = 60, license_compliance = False, vulnerability_count = 2\<rparr>"
  "snd (loop_candidate (script_env 0 []) 0 [] 0 ([0.9], ''t'')) = ([], ''t'')"
  by (simp_all add: candidate_eval)

lemma demo_second:
  "metrics (fst (loop_candidate (script_env 0 []) 0 [] (Suc 0) ([], ''t''))) =
     \<lparr>test_pass_rate = 0.95, coverage = 0.85, performance_score = 85, security_score = 90,
      ux_score = 80, style_score = 90, license_compliance = True, vulnerability_count = 0\<rparr>"
  by (simp_all add: candidate_eval)

lemma demo_generation_metrics:
  "metrics (candidates demo_generation ! 0) =
     \<lparr>test_pass_rate = 0.6, coverage = 0.5, performance_score = 50, security_score = 40,
      ux_score = 50, style_score = 60, license_compliance = False, vulnerability_count = 2\<rparr>"
  "metrics (candidates demo_generation ! Suc 0) =
     \<lparr>test_pass_rate = 0.95, coverage = 0.85, performance_score = 85, security_score = 90,
      ux_score = 80, style_score = 90, license_compliance = True, vulnerability_count = 0\<rparr>"
proof -
  let ?E = "script_env 0 []" and ?w = "([0.9], ''t'')"
  let ?c0 = "fst (generated_candidates ?E 0 [] ?w)"
  have c0: "?c0 = fst (candidates_loop ?E 0 [] [0, 1, 2, 3, 4, 5, 6, 7] [] ?w)"
    by (simp add: generated_candidates_def upt_0_8)
  have len: "length ?c0 = 8"
    unfolding c0 by (simp add: candidates_loop_length)
  have "map metrics (candidates demo_generation) = map metrics ?c0"
    unfolding demo_generation_def generate_generation_fields(2)
    by (rule erased_eq_fields(4)) (rule mark_survivors_erased)
  moreover have "length (candidates demo_generation) = 8"
    unfolding demo_generation_def generate_generation_fields(2)
    by (simp add: mark_survivors_length len)
  ultimately have nth: "metrics (candidates demo_generation ! i) = metrics (?c0 ! i)" if "i < 8" for i
    using that len by (metis nth_map)
  show "metrics (candidates demo_generation ! 0) =
     \<lparr>test_pass_rate = 0.6, coverage = 0.5, performance_score = 50, security_score = 40,
      ux_score = 50, style_score = 60, license_compliance = False, vulnerability_count = 2\<rparr>"
    using nth [of 0] by (simp add: c0 candidates_loop_Cons demo_first)
  show "metrics (candidates demo_generation ! Suc 0) =
     \<lparr>test_pass_rate = 0.95, coverage = 0.85, performance_score = 85, security_score = 90,
      ux_score = 80, style_score = 90, license_compliance = True, vulnerability_count = 0\<rparr>"
    using nth [of "Suc 0"] by (simp add: c0 candidates_loop_Cons demo_first demo_second)
qed

section \<open>Stable sorting and the choice of survivors\<close>

lemma insort_key_cong_on:
  "f x = g x \<Longrightarrow> (\<forall>y\<in>set ys. f y = g y) \<Longrightarrow> insort_key f x ys = insort_key g x ys"
proof (induction ys)
  case Nil
  then show ?case by simp
next
  case (Cons y ys)
  have fx: "f x = g x" and fy: "f y = g y" and rest: "\<forall>z\<in>set ys. f z = g z"
    using Cons.prems by simp_all
  have IH: "insort_key f x ys = insort_key g x ys"
    using Cons.IH fx rest by blast
  show ?case
    by (simp only: insort_key.simps fx fy IH)
qed

lemma sort_key_cong_on:
  "(\<forall>x\<in>set xs. f x = g x) \<Longrightarrow> sort_key f xs = sort_key g xs"
proof (induction xs)
  case Nil
  then show ?case by simp
next
  case (Cons x xs)
  have fx: "f x = g x" and rest: "\<forall>z\<in>set xs. f z = g z"
    using Cons.prems by simp_all
  have IH: "sort_key f xs = sort_key g xs"
    using Cons.IH rest by blast
  have "insort_key f x (sort_key g xs) = insort_key g x (sort_key g xs)"
    using fx rest by (intro insort_key_cong_on) simp_all
  then show ?case
    by (simp only: sort_key_simps IH)
qed

lemma insort_key_keeps_order:
  fixes f :: "'a \<Rightarrow> 'k::linorder"
  assumes "sorted_wrt (\<lambda>a b. f a < f b \<or> (f a = f b \<and> R a b)) ys"
    and "\<forall>y\<in>set ys. R x y"
  shows "sorted_wrt (\<lambda>a b. f a < f b \<or> (f a = f b \<and> R a b)) (insort_key f x ys)"
  using assms
proof (induction ys)
  case Nil
  then show ?case by simp
next
  case (Cons y ys)
  let ?Q = "\<lambda>a b. f a < f b \<or> (f a = f b \<and> R a b)"
  have tail: "sorted_wrt ?Q ys" and head: "\<forall>z\<in>set ys. ?Q y z"
    using Cons.prems(1) by simp_all
  show ?case
  proof (cases "f x \<le> f y")
    case True
    have "?Q x z" if "z \<in> set (y # ys)" for z
    proof -
      have "f y \<le> f z"
        using that head by auto
      then have "f x \<le> f z"
        using True by simp
      moreover have "R x z"
        using that Cons.prems(2) by auto
      ultimately show ?thesis by auto
    qed
    then have "\<forall>z\<in>set (y # ys). ?Q x z" by blast
    then show ?thesis
      using True Cons.prems(1) by simp
  next
    case False
    then have "?Q y x" by (simp add: not_le)
    then have "\<forall>z\<in>set (insort_key f x ys). ?Q y z"
      using head by (simp add: set_insort_key)
    moreover have "sorted_wrt ?Q (insort_key f x ys)"
      using Cons.IH tail Cons.prems(2) by simp
    ultimately show ?thesis
      using False by simp
  qed
qed

lemma sort_key_keeps_order:
  fixes f :: "'a \<Rightarrow> 'k::linorder"
  assumes "sorted_wrt R xs"
  shows "sorted_wrt (\<lambda>a b. f a < f b \<or> (f a = f b \<and> R a b)) (sort_key f xs)"
  using assms by (induction xs) (simp_all add: insort_key_keeps_order)

lemma filter_by_position:
  "map (nth cs) (filter (\<lambda>i. P (cs ! i)) [0..<length cs]) = filter P cs"
proof -
  have "filter P (map (nth cs) [0..<length cs]) =
          map (nth cs) (filter (P \<circ> nth cs) [0..<length cs])"
    by (rule filter_map)
  then show ?thesis
    by (simp add: map_nth comp_def)
qed

lemma passing_candidates_bound:
  "i \<in> set (passing_candidates cs) \<Longrightarrow> i < length cs"
  by (simp add: passing_candidates_def sort_reverse_def)

lemma passing_candidates_mset:
  "mset (map (nth cs) (passing_candidates cs)) = mset (filter gates_passed cs)"
proof -
  have "mset (map (nth cs) (passing_candidates cs)) =
          mset (map (nth cs) (filter (\<lambda>i. gates_passed (cs ! i)) [0..<length cs]))"
    by (simp add: passing_candidates_def sort_reverse_def)
  then show ?thesis
    by (simp only: filter_by_position)
qed

lemma passing_candidates_order:
  "sorted_wrt (\<lambda>i j. effective_score (cs ! i) > effective_score (cs ! j) \<or>
       (effective_score (cs ! i) = effective_score (cs ! j) \<and> i < j)) (passing_candidates cs)"
proof -
  have "sorted_wrt (<) (filter (\<lambda>i. gates_passed (cs ! i)) [0..<length cs])"
    by (simp add: sorted_wrt_filter)
  from sort_key_keeps_order [OF this, of "\<lambda>i. - effective_score (cs ! i)"]
  show ?thesis
    by (simp add: passing_candidates_def sort_reverse_def)
qed

lemma passing_candidates_cong:
  assumes "map gates_passed xs = map gates_passed ys"
    and "map effective_score xs = map effective_score ys"
  shows "passing_candidates xs = passing_candidates ys"
proof -
  have len: "length xs = length ys"
    using assms(1) by (rule map_eq_imp_length_eq)
  have gp: "gates_passed (xs ! i) = gates_passed (ys ! i)" if "i < length xs" for i
  proof -
    have "map gates_passed xs ! i = map gates_passed ys ! i"
      by (simp only: assms(1))
    then show ?thesis
      using that len by simp
  qed
  have es: "effective_score (xs ! i) = effective_score (ys ! i)" if "i < length xs" for i
  proof -
    have "map effective_score xs ! i = map effective_score ys ! i"
      by (simp only: assms(2))
    then show ?thesis
      using that len by simp
  qed
  have flt: "filter (\<lambda>i. gates_passed (xs ! i)) [0..<length xs] =
          filter (\<lambda>i. gates_passed (ys ! i)) [0..<length ys]"
  proof (rule filter_cong)
    show "[0..<length xs] = [0..<length ys]"
      by (simp only: len)
  next
    fix i
    assume "i \<in> set [0..<length ys]"
    then have "i < length xs"
      by (simp add: len)
    then show "gates_passed (xs ! i) = gates_passed (ys ! i)"
      by (rule gp)
  qed
  have srt: "sort_key (\<lambda>i. - effective_score (xs ! i))
          (filter (\<lambda>i. gates_passed (ys ! i)) [0..<length ys]) =
        sort_key (\<lambda>i. - effective_score (ys ! i))
          (filter (\<lambda>i. gates_passed (ys ! i)) [0..<length ys])"
  proof (rule sort_key_cong_on, rule ballI)
    fix i
    assume "i \<in> set (filter (\<lambda>i. gates_passed (ys ! i)) [0..<length ys])"
    then have "i < length xs"
      by (simp add: len)
    then show "- effective_score (xs ! i) = - effective_score (ys ! i)"
      by (simp only: es)
  qed
  show ?thesis
    unfolding passing_candidates_def sort_reverse_def flt by (rule srt)
qed

lemma generation_passing_candidates:
  fixes E :: "'w env"
  shows "passing_candidates (fst (generated_candidates E g ps w)) =
         passing_candidates (candidates (fst (generate_generation E g ps w)))"
proof -
  let ?c0 = "fst (generated_candidates E g ps w)"
  let ?cs = "candidates (fst (generate_generation E g ps w))"
  have "map selection_erased ?cs = map selection_erased ?c0"
    unfolding generate_generation_fields(2) by (rule mark_survivors_erased)
  then have "passing_candidates ?cs = passing_candidates ?c0"
    by (intro passing_candidates_cong erased_eq_fields(2,3))
  then show ?thesis by simp
qed

lemma generation_survivors:
  fixes E :: "'w env" and g ps w
  defines "gen \<equiv> fst (generate_generation E g ps w)"
  shows "survivors gen =
     (if 2 \<le> length (passing_candidates (candidates gen))
      then map c_id (take 3 (map (nth (candidates gen)) (passing_candidates (candidates gen))))
      else [])"
proof -
  have "survivors gen =
          map (\<lambda>s. c_id (candidates gen ! s)) (select_survivors (fst (generated_candidates E g ps w)))"
    unfolding gen_def by (rule generate_generation_fields(4))
  also have "select_survivors (fst (generated_candidates E g ps w)) =
          select_survivors (candidates gen)"
    unfolding gen_def select_survivors_def generation_passing_candidates ..
  finally show ?thesis
    by (simp add: select_survivors_def take_map)
qed

section \<open>Candidate ids\<close>

lemma str_nat_digit: "n < 10 \<Longrightarrow> str_nat n = [digit_char n]"
  by (simp add: str_nat.simps)

lemma str_int_digit: "n < 10 \<Longrightarrow> str_int (int n) = [digit_char n]"
  by (simp add: str_int_def str_nat_digit)

lemma digits_ascending: "sorted_wrt (<) (map digit_char [0..<10])"
proof -
  have "map digit_char [0..<10] = ''0123456789''"
    by (simp add: upt_rec digit_char_def)
  then show ?thesis
    by simp
qed

lemma digit_char_less:
  assumes "i < j" and "j < 10"
  shows "digit_char i < digit_char j"
proof -
  have "map digit_char [0..<10] ! i < map digit_char [0..<10] ! j"
    using digits_ascending assms by (simp only: sorted_wrt_iff_nth_less length_map length_upt)
  then show ?thesis
    using assms by simp
qed

lemma append_less_append:
  fixes xs ys :: "'a::order list"
  shows "p @ xs < p @ ys \<longleftrightarrow> xs < ys"
  by (induction p) simp_all

lemma candidate_id_less:
  assumes "i < j" and "j < 10"
  shows "''gen'' @ str_int g @ ''-cand'' @ str_int (int i) <
         ''gen'' @ str_int g @ ''-cand'' @ str_int (int j)"
proof -
  have "[digit_char i] < [digit_char j]"
    using digit_char_less [OF assms] by simp
  then have "(''gen'' @ str_int g @ ''-cand'') @ str_int (int i) <
             (''gen'' @ str_int g @ ''-cand'') @ str_int (int j)"
    using assms by (simp only: append_less_append str_int_digit) 
  then show ?thesis
    by simp
qed


lemma randint_in_rangeD:
  "randint_in_range E \<Longrightarrow> a \<le> b \<Longrightarrow>
     a \<le> fst (randint E a b w) \<and> fst (randint E a b w) \<le> b"
  by (simp add: randint_in_range_def)

lemma generated_candidates_ids:
  fixes E :: "'w env"
  shows "\<exists>n. (randint_in_range E \<longrightarrow> n \<le> 8) \<and>
     map c_id (fst (generated_candidates E g ps w)) =
       map (\<lambda>i. ''gen'' @ str_int g @ ''-cand'' @ str_int (int i)) [0..<n]"
proof (cases "g = 0")
  case True
  then show ?thesis
    by (intro exI [of _ 8]) (simp add: generated_candidates_def candidates_loop_ids)
next
  case False
  let ?n = "nat (fst (randint E 6 8 w))"
  have "?n \<le> 8" if "randint_in_range E"
  proof -
    have "fst (randint E 6 8 w) \<le> 8"
      using randint_in_rangeD [OF that, of 6 8 w] by simp
    then show ?thesis by simp
  qed
  then show ?thesis
    using False
    by (intro exI [of _ ?n])
       (simp add: generated_candidates_def candidates_loop_ids split_def Let_def)
qed

lemma generation_candidate_ids:
  fixes E :: "'w env"
  shows "\<exists>n. (randint_in_range E \<longrightarrow> n \<le> 8) \<and>
     map c_id (candidates (fst (generate_generation E g ps w))) =
       map (\<lambda>i. ''gen'' @ str_int g @ ''-cand'' @ str_int (int i)) [0..<n]"
proof -
  have "map c_id (candidates (fst (generate_generation E g ps w))) =
          map c_id (fst (generated_candidates E g ps w))"
    unfolding generate_generation_fields(2)
    by (rule erased_eq_fields(1)) (rule mark_survivors_erased)
  then show ?thesis
    using generated_candidates_ids [of E g ps w] by simp
qed

lemma generation_ids_ascending:
  fixes E :: "'w env"
  assumes "randint_in_range E"
    and "i < j" and "j < length (candidates (fst (generate_generation E g ps w)))"
  shows "c_id (candidates (fst (generate_generation E g ps w)) ! i) <
         c_id (candidates (fst (generate_generation E g ps w)) ! j)"
proof -
  let ?cs = "candidates (fst (generate_generation E g ps w))"
  obtain n where n: "n \<le> 8"
    and ids: "map c_id ?cs = map (\<lambda>i. ''gen'' @ str_int g @ ''-cand'' @ str_int (int i)) [0..<n]"
    using generation_candidate_ids [of E g ps w] assms(1) by blast
  have len: "length ?cs = n"
    using ids by (metis length_map length_upt minus_nat.diff_0)
  have nth: "c_id (?cs ! k) = ''gen'' @ str_int g @ ''-cand'' @ str_int (int k)" if "k < n" for k
  proof -
    have "map c_id ?cs ! k = ''gen'' @ str_int g @ ''-cand'' @ str_int (int k)"
      using that by (simp only: ids) simp
    then show ?thesis
      using that len by simp
  qed
  have "j < 10"
    using assms(3) len n by simp
  then show ?thesis
    using assms(2,3) len by (simp only: nth candidate_id_less)
qed

text \<open>The generation \<open>demo_generation\<close>, evaluated.\<close>

lemma demo_candidates:
  "fst (generated_candidates (script_env 0 []) 0 [] ([0.9], ''t'')) =
     fst (loop_candidate (script_env 0 []) 0 [] 0 ([0.9], ''t'')) #
     map (\<lambda>i. fst (loop_candidate (script_env 0 []) 0 [] i ([], ''t''))) [1, 2, 3, 4, 5, 6, 7]"
  by (simp add: generated_candidates_def upt_0_8 candidates_loop_Cons demo_first(2)
      steady_candidates_loop steady_script)

lemma demo_bad:
  "gates_passed (fst (loop_candidate (script_env 0 []) 0 [] 0 ([0.9], ''t''))) = False"
  by (simp add: candidate_eval)

lemma demo_good:
  "gates_passed (fst (loop_candidate (script_env 0 []) 0 [] i ([], ''t''))) = True"
  "effective_score (fst (loop_candidate (script_env 0 []) 0 [] i ([], ''t''))) = 88.5"
  by (simp_all add: candidate_eval compute_effective_score_def weight_simps)

lemma demo_passing:
  "passing_candidates (candidates demo_generation) = [1, 2, 3, 4, 5, 6, 7]"
  unfolding demo_generation_def generation_passing_candidates [symmetric]
  by (simp add: passing_candidates_def sort_reverse_def demo_candidates demo_bad demo_good
      upt_0_8)

lemma demo_ids:
  "map c_id (candidates demo_generation) =
     [''gen0-cand0'', ''gen0-cand1'', ''gen0-cand2'', ''gen0-cand3'',
      ''gen0-cand4'', ''gen0-cand5'', ''gen0-cand6'', ''gen0-cand7'']"
proof -
  have "map c_id (candidates demo_generation) =
      map c_id (fst (generated_candidates (script_env 0 []) 0 [] ([0.9], ''t'')))"
    unfolding demo_generation_def generate_generation_fields(2)
    by (rule erased_eq_fields(1)) (rule mark_survivors_erased)
  then show ?thesis
    by (simp add: generated_candidates_def candidates_loop_ids upt_0_8 str_int_def
        str_nat.simps digit_char_def)
qed

lemma demo_survivors:
  "survivors demo_generation = [''gen0-cand1'', ''gen0-cand2'', ''gen0-cand3'']"
proof -
  have len: "length (candidates demo_generation) = 8"
    unfolding demo_generation_def generate_generation_fields(2)
    by (simp add: mark_survivors_length generated_candidates_def candidates_loop_length)
  have nth: "c_id (candidates demo_generation ! k) = map c_id (candidates demo_generation) ! k"
    if "k < 8" for k
    using that len by simp
  have "survivors demo_generation =
      [c_id (candidates demo_generation ! Suc 0), c_id (candidates demo_generation ! 2),
       c_id (candidates demo_generation ! 3)]"
    using generation_survivors [of "script_env 0 []" 0 "[]" "([0.9], ''t'')"]
    by (simp add: demo_generation_def [symmetric] demo_passing)
  then show ?thesis
    by (simp add: nth demo_ids)
qed

lemma demo_state:
  "snd (generated_candidates (script_env 0 []) 0 [] ([0.9], ''t'')) = ([], ''t'')"
  by (simp add: generated_candidates_def upt_0_8 candidates_loop.simps Let_def
      split_def demo_first(2) steady_loop_candidate steady_script)

lemma demo_before_list:
  "demo_before =
     fst (loop_candidate (script_env 0 []) 0 [] 0 ([0.9], ''t'')) #
     map (\<lambda>i. fst (loop_candidate (script_env 0 []) 0 [] i ([], ''t''))) [1, 2, 3, 4, 5, 6, 7]"
  unfolding demo_before_def by (rule demo_candidates)

lemma demo_select: "select_survivors demo_before = [1, 2, 3]"
  using demo_passing
  unfolding demo_generation_def generation_passing_candidates [symmetric]
  by (simp add: select_survivors_def demo_before_def)

lemma demo_after:
  "candidates demo_generation =
     fst (mark_survivors (script_env 0 []) (select_survivors demo_before) demo_before ([], ''t''))"
  unfolding demo_generation_def generate_generation_fields(2)
  by (simp add: demo_before_def demo_state)

section \<open>The loop over the survivors\<close>

lemma mark_survivors_untouched:
  "i \<notin> set ss \<Longrightarrow> fst (mark_survivors E ss cs w) ! i = cs ! i"
  by (induction ss arbitrary: cs w) (simp_all add: mark_survivors.simps Let_def split_def)

lemma mark_survivors_marked:
  assumes "\<forall>s\<in>set seen. s < length cs \<longrightarrow> marked (cs ! s)"
  shows "\<forall>s\<in>set seen \<union> set ss. s < length cs \<longrightarrow> marked (fst (mark_survivors E ss cs w) ! s)"
  using assms
proof (induction ss arbitrary: cs w seen)
  case Nil
  then show ?case by (simp add: mark_survivors.simps)
next
  case (Cons s ss)
  let ?r = "fst (random E w)"
  let ?c = "(cs ! s)\<lparr>selected_for_breeding := True, is_pareto_front := (?r > 0.5),
      survival_reason := Some (if ?r > 0.5 then ''Pareto optimal'' else ''High effective score'')\<rparr>"
  let ?cs = "cs[s := ?c]"
  have "\<forall>k\<in>set (s # seen). k < length ?cs \<longrightarrow> marked (?cs ! k)"
  proof (intro ballI impI)
    fix k
    assume k: "k \<in> set (s # seen)" and len: "k < length ?cs"
    show "marked (?cs ! k)"
    proof (cases "k = s")
      case True
      then show ?thesis using len by (simp add: marked_def)
    next
      case False
      then show ?thesis using k len Cons.prems by simp
    qed
  qed
  from Cons.IH [OF this, of "snd (random E w)"]
  show ?case
    by (simp add: mark_survivors.simps Let_def split_def)
qed

section \<open>Structure of the sample run\<close>





















section \<open>Structure of a DNA bundle\<close>




















section \<open>The Pareto front\<close>

text \<open>
  C4, as the code has it. The \<open>pareto_front\<close> of a generation holds one point for every
  candidate of the generation, in the order of the candidates, with \<open>objective1\<close> the
  candidate's \<open>security_score\<close> and \<open>objective2\<close> its \<open>performance_score\<close>. No
  candidate is left out: dominated candidates are listed like all others, and so are
  candidates with identical coordinates.
\<close>

theorem pareto_front_lists_every_candidate:
  fixes E :: "'w env"
  shows
  "pareto_front (fst (generate_generation E g ps w)) =
     map (\<lambda>c. \<lparr>candidate_id = c_id c,
                objective1 = security_score (metrics c),
                objective2 = performance_score (metrics c),
                label = c_id c\<rparr>)
       (candidates (fst (generate_generation E g ps w))) \<and>
   length (pareto_front (fst (generate_generation E g ps w))) =
     length (candidates (fst (generate_generation E g ps w)))"
  by (simp add: generate_generation_fields(3) pareto_points_def)

text \<open>
  C4, as the claim states it, fails: in the generation \<open>demo_generation\<close> the second
  candidate (security 90, performance 85) dominates the first (security 40, performance
  50), and the front still holds the point of the first.
\<close>

theorem pareto_front_holds_dominated_candidate:
  "dominates (candidates demo_generation ! 1) (candidates demo_generation ! 0) \<and>
   length (pareto_front demo_generation) = 8 \<and>
   candidate_id (pareto_front demo_generation ! 0) = c_id (candidates demo_generation ! 0) \<and>
   objective1 (pareto_front demo_generation ! 0) = 40 \<and>
   objective2 (pareto_front demo_generation ! 0) = 50 \<and>
   objective1 (pareto_front demo_generation ! 1) = 90 \<and>
   objective2 (pareto_front demo_generation ! 1) = 85"
proof -
  have len: "length (candidates demo_generation) = 8"
    unfolding demo_generation_def generate_generation_fields(2)
    by (simp add: mark_survivors_length generated_candidates_def candidates_loop_length)
  have front: "pareto_front demo_generation = pareto_points (candidates demo_generation)"
    unfolding demo_generation_def by (rule generate_generation_fields(3))
  show ?thesis
    using len by (simp add: front pareto_points_def dominates_def demo_generation_metrics)
qed

section \<open>Survivor selection\<close>

text \<open>
  C5. In every generation that \<open>generate_generation\<close> returns (the generator keeping
  \<open>randint\<close> within its bounds), the survivors are obtained from the candidates of the
  generation by keeping those that passed the gates, ranking them in descending order of
  \<open>effective_score\<close> with ties in ascending order of \<open>id\<close>, and taking the ids of the
  first three when at least two passed; when fewer than two passed, there are no
  survivors. (The code sorts stably by score alone; the candidates of a generation are
  created in ascending order of their ids, so the ties fall in that order.)
\<close>

theorem survivors_top_three_by_score_then_id:
  fixes E :: "'w env" and g ps w
  assumes "randint_in_range E"
  defines "gen \<equiv> fst (generate_generation E g ps w)"
  shows "\<exists>ranked.
     mset ranked = mset (filter gates_passed (candidates gen)) \<and>
     sorted_wrt ranks_before ranked \<and>
     survivors gen = (if 2 \<le> length ranked then map c_id (take 3 ranked) else [])"
proof -
  let ?cs = "candidates gen"
  let ?ranked = "map (nth ?cs) (passing_candidates ?cs)"
  have step: "ranks_before (?cs ! i) (?cs ! j)"
    if "i \<in> set (passing_candidates ?cs)" and "j \<in> set (passing_candidates ?cs)"
      and "effective_score (?cs ! i) > effective_score (?cs ! j) \<or>
           (effective_score (?cs ! i) = effective_score (?cs ! j) \<and> i < j)" for i j
  proof (cases "effective_score (?cs ! i) > effective_score (?cs ! j)")
    case True
    then show ?thesis by (simp add: ranks_before_def)
  next
    case False
    then have eq: "effective_score (?cs ! i) = effective_score (?cs ! j)" and "i < j"
      using that(3) by simp_all
    moreover have "j < length ?cs"
      using that(2) by (rule passing_candidates_bound)
    ultimately have "c_id (?cs ! i) < c_id (?cs ! j)"
      unfolding gen_def using assms(1) by (intro generation_ids_ascending)
    then show ?thesis
      using eq by (simp add: ranks_before_def)
  qed
  have "sorted_wrt (\<lambda>i j. ranks_before (?cs ! i) (?cs ! j)) (passing_candidates ?cs)"
  proof (rule sorted_wrt_mono_rel [OF _ passing_candidates_order])
    fix i j
    assume "i \<in> set (passing_candidates ?cs)" and "j \<in> set (passing_candidates ?cs)"
      and "effective_score (?cs ! i) > effective_score (?cs ! j) \<or>
           (effective_score (?cs ! i) = effective_score (?cs ! j) \<and> i < j)"
    then show "ranks_before (?cs ! i) (?cs ! j)"
      by (rule step)
  qed
  then have "sorted_wrt ranks_before ?ranked"
    by (simp add: sorted_wrt_map)
  moreover have "mset ?ranked = mset (filter gates_passed ?cs)"
    by (rule passing_candidates_mset)
  moreover have "survivors gen = (if 2 \<le> length ?ranked then map c_id (take 3 ?ranked) else [])"
    unfolding gen_def using generation_survivors [of E g ps w] by simp
  ultimately show ?thesis
    by blast
qed

theorem survivors_top_three_by_score_then_id_witness:
  "randint_in_range (script_env 0 []) \<and>
   survivors demo_generation = [''gen0-cand1'', ''gen0-cand2'', ''gen0-cand3''] \<and>
   (\<exists>ranked.
      mset ranked = mset (filter gates_passed (candidates demo_generation)) \<and>
      sorted_wrt ranks_before ranked \<and>
      survivors demo_generation =
        (if 2 \<le> length ranked then map c_id (take 3 ranked) else []))"
  using survivors_top_three_by_score_then_id
      [OF randint_in_range_script [of 0 "[]"], of 0 "[]" "([0.9], ''t'')",
       folded demo_generation_def]
    randint_in_range_script [of 0 "[]"] demo_survivors
  by simp

section \<open>The allocation snapshot\<close>

text \<open>
  The allocation snapshot of a generation holds three entries with fixed scores; only
  \<open>mean_reward\<close> is drawn, and \<open>times_selected\<close> grows with the number of the
  generation.
\<close>

lemma ucb_allocations_figures:
  fixes E :: "'w env" and g ps w
  defines "ucb \<equiv> ucb_allocations (fst (generate_generation E g ps w))"
  shows "map agent_id ucb = [''generator-001'', ''generator-002'', ''generator-003'']"
    and "map total_score ucb = [0.88, 0.85, 0.82]"
    and "map exploration_bonus ucb = [0.08, 0.12, 0.15]"
    and "map confidence_interval ucb = [0.05, 0.08, 0.10]"
    and "map times_selected ucb = [g * 3 + 5, g * 2 + 4, g * 2 + 2]"
  unfolding ucb_def generate_generation_fields(6)
  by (simp_all add: generate_ucb_allocations_def Let_def split_def)

section \<open>What the survivor pass changes\<close>

text \<open>
  C9, as the code has it. The survivor pass (choosing the survivors and the loop over
  them) keeps the number of candidates and leaves every field of every candidate as it
  was, except \<open>selected_for_breeding\<close>, \<open>is_pareto_front\<close> and \<open>survival_reason\<close> of the
  survivors: \<open>effective_score\<close> is not touched, a candidate that is no survivor is not
  touched at all, and a survivor ends with \<open>selected_for_breeding\<close> set and a
  \<open>survival_reason\<close> that names its \<open>is_pareto_front\<close>.
\<close>

theorem survivor_pass_assigns_selection_fields:
  fixes E :: "'w env" and cands w
  defines "after \<equiv> fst (mark_survivors E (select_survivors cands) cands w)"
  shows "length after = length cands \<and>
         map selection_erased after = map selection_erased cands \<and>
         map effective_score after = map effective_score cands \<and>
         (\<forall>i. i \<notin> set (select_survivors cands) \<longrightarrow> after ! i = cands ! i) \<and>
         (\<forall>i\<in>set (select_survivors cands).
            selected_for_breeding (after ! i) \<and>
            survival_reason (after ! i) =
              Some (if is_pareto_front (after ! i) then ''Pareto optimal''
                    else ''High effective score''))"
proof -
  have "\<forall>s\<in>set [] \<union> set (select_survivors cands).
          s < length cands \<longrightarrow> marked (after ! s)"
    unfolding after_def by (rule mark_survivors_marked) simp
  moreover have "s < length cands" if "s \<in> set (select_survivors cands)" for s
    using that passing_candidates_bound [of s cands]
    by (auto simp: select_survivors_def dest: in_set_takeD split: if_splits)
  ultimately have "\<forall>i\<in>set (select_survivors cands). marked (after ! i)"
    by simp
  then show ?thesis
    unfolding after_def
    by (simp add: mark_survivors_length mark_survivors_erased mark_survivors_untouched
        erased_eq_fields(3) [OF mark_survivors_erased] marked_def)
qed

theorem survivor_pass_assigns_selection_fields_witness:
  "0 \<notin> set (select_survivors demo_before) \<and>
   candidates demo_generation ! 0 = demo_before ! 0 \<and>
   1 \<in> set (select_survivors demo_before) \<and>
   selected_for_breeding (candidates demo_generation ! 1) \<and>
   map effective_score (candidates demo_generation) = map effective_score demo_before"
  using survivor_pass_assigns_selection_fields
      [of "script_env 0 []" demo_before "([], ''t'')", folded demo_after]
  by (simp add: demo_select)

text \<open>
  C9, as the claim states it, fails: \<open>survival_reason\<close> is none of the three fields the
  claim lets the pass change, and the pass changes it. The second candidate of
  \<open>demo_generation\<close> is created without a \<open>survival_reason\<close> and has one after the pass.
\<close>

theorem survivor_pass_sets_survival_reason:
  "survival_reason (demo_before ! 1) = None \<and>
   survival_reason (candidates demo_generation ! 1) = Some ''High effective score'' \<and>
   candidates demo_generation =
     fst (mark_survivors (script_env 0 []) (select_survivors demo_before) demo_before
       ([], ''t''))"
proof -
  have before: "survival_reason (demo_before ! 1) = None"
    by (simp add: demo_before_list loop_candidate_def Let_def split_def
        generate_candidate_fields(6))
  have len: "length demo_before = 8"
    by (simp add: demo_before_list)
  have "survival_reason (candidates demo_generation ! 1) = Some ''High effective score''"
    by (simp add: demo_after demo_select mark_survivors.simps script_simps Let_def len)
  then show ?thesis
    using before demo_after by simp
qed

section \<open>A generation without survivors\<close>




section \<open>Two calls of the sample run\<close>


section \<open>Building a DNA bundle twice\<close>




end
